theory Spec2Isabelle
  imports Complex_Main "HOL-Library.Word"
begin

section \<open>JavaScript values\<close>

text \<open>
  The server in \<^verbatim>\<open>src/server.js\<close> is one Express module: three provider adapters
  (\<^verbatim>\<open>callModelA\<close>, \<^verbatim>\<open>callModelB\<close>, \<^verbatim>\<open>callModelC\<close>), the handler of
  \<^verbatim>\<open>POST /api/compare\<close> and the handler of \<^verbatim>\<open>GET /api/health\<close>.

  A JavaScript string is a sequence of UTF-16 code units, and \<^verbatim>\<open>trim\<close> and
  \<^verbatim>\<open>length\<close> work on code units, so a string is a list of 16-bit words.
  \<open>js\<close> turns a literal of the source (ASCII) into such a string.
\<close>

type_synonym jsstring = "16 word list"

definition js :: "string \<Rightarrow> jsstring" where
  "js s = map of_char s"

text \<open>
  Numbers are doubles. The code only tests a number for truthiness, which asks whether it
  is zero or NaN, so a finite number is kept by its rational value (\<open>-0\<close> is \<open>0\<close>).
\<close>

datatype jsnum = Finite rat | PosInf | NegInf | NaN

text \<open>
  The values that reach the code: what \<^verbatim>\<open>express.json()\<close> parsed into
  \<^verbatim>\<open>req.body\<close>, what axios parsed into \<^verbatim>\<open>response.data\<close>, and
  \<^verbatim>\<open>undefined\<close>. An object is the list of its own properties; the first binding of a
  name is the one a lookup finds.
\<close>

datatype jsval =
    JUndefined
  | JNull
  | JBool bool
  | JNum jsnum
  | JStr jsstring
  | JArr "jsval list"
  | JObj "(jsstring \<times> jsval) list"

text \<open>Every value thrown in this program is an \<^verbatim>\<open>Error\<close> object with a string message:
  a \<^verbatim>\<open>TypeError\<close> of the engine or the error axios rejects with.\<close>

datatype js_error = TypeError jsstring | AxiosError jsstring

fun message :: "js_error \<Rightarrow> jsstring" where
  "message (TypeError m) = m"
| "message (AxiosError m) = m"

text \<open>\<^verbatim>\<open>!prompt\<close> is the negation of JavaScript's truthiness.\<close>

fun truthy :: "jsval \<Rightarrow> bool" where
  "truthy JUndefined = False"
| "truthy JNull = False"
| "truthy (JBool b) = b"
| "truthy (JNum n) = (case n of Finite q \<Rightarrow> q \<noteq> 0 | PosInf \<Rightarrow> True | NegInf \<Rightarrow> True | NaN \<Rightarrow> False)"
| "truthy (JStr s) = (s \<noteq> [])"
| "truthy (JArr xs) = True"
| "truthy (JObj kvs) = True"

subsection \<open>Property access\<close>

text \<open>
  The property names the code reads, and the index \<^verbatim>\<open>[0]\<close>. None of the names is
  defined on a built-in prototype, so on a string, an array, a number or a boolean each
  of them reads as \<^verbatim>\<open>undefined\<close>; reading any property of \<^verbatim>\<open>undefined\<close> or
  \<^verbatim>\<open>null\<close> throws a \<^verbatim>\<open>TypeError\<close>.
\<close>

datatype field = F_prompt | F_choices | F_message | F_content | F_candidates | F_parts | F_text

datatype key = Fld field | Idx0

fun field_name :: "field \<Rightarrow> string" where
  "field_name F_prompt = ''prompt''"
| "field_name F_choices = ''choices''"
| "field_name F_message = ''message''"
| "field_name F_content = ''content''"
| "field_name F_candidates = ''candidates''"
| "field_name F_parts = ''parts''"
| "field_name F_text = ''text''"

fun key_name :: "key \<Rightarrow> string" where
  "key_name (Fld f) = field_name f"
| "key_name Idx0 = ''0''"

definition cannot_read :: "string \<Rightarrow> key \<Rightarrow> js_error" where
  "cannot_read what k =
     TypeError (js (''Cannot read properties of '' @ what @ '' (reading '' @ [CHR 39] @ key_name k @ [CHR 39] @ '')''))"

fun get :: "jsval \<Rightarrow> key \<Rightarrow> js_error + jsval" where
  "get JUndefined k = Inl (cannot_read ''undefined'' k)"
| "get JNull k = Inl (cannot_read ''null'' k)"
| "get (JObj kvs) k = Inr (case map_of kvs (js (key_name k)) of None \<Rightarrow> JUndefined | Some v \<Rightarrow> v)"
| "get (JArr xs) (Fld f) = Inr JUndefined"
| "get (JArr xs) Idx0 = Inr (case xs of [] \<Rightarrow> JUndefined | x # _ \<Rightarrow> x)"
| "get (JStr s) (Fld f) = Inr JUndefined"
| "get (JStr s) Idx0 = Inr (case s of [] \<Rightarrow> JUndefined | c # _ \<Rightarrow> JStr [c])"
| "get (JBool b) k = Inr JUndefined"
| "get (JNum n) k = Inr JUndefined"

text \<open>A chain \<^verbatim>\<open>v.a[0].b\<close> reads left to right and stops at the first throw.\<close>

fun get_path :: "jsval \<Rightarrow> key list \<Rightarrow> js_error + jsval" where
  "get_path v [] = Inr v"
| "get_path v (k # ks) = (case get v k of Inl e \<Rightarrow> Inl e | Inr w \<Rightarrow> get_path w ks)"

subsection \<open>\<^verbatim>\<open>String.prototype.trim\<close>\<close>

text \<open>The code units of ECMAScript's WhiteSpace and LineTerminator productions.\<close>

definition is_space :: "16 word \<Rightarrow> bool" where
  "is_space c \<longleftrightarrow>
     c = 0x0009 \<or> c = 0x000A \<or> c = 0x000B \<or> c = 0x000C \<or> c = 0x000D \<or> c = 0x0020 \<or>
     c = 0x00A0 \<or> c = 0x1680 \<or> (0x2000 \<le> c \<and> c \<le> 0x200A) \<or> c = 0x2028 \<or> c = 0x2029 \<or>
     c = 0x202F \<or> c = 0x205F \<or> c = 0x3000 \<or> c = 0xFEFF"

definition trim :: "jsstring \<Rightarrow> jsstring" where
  "trim s = rev (dropWhile is_space (rev (dropWhile is_space s)))"

text \<open>
  \<^verbatim>\<open>prompt.trim()\<close>: a string has the method; on \<^verbatim>\<open>undefined\<close> and \<^verbatim>\<open>null\<close>
  the property read throws; on any other parsed value \<^verbatim>\<open>prompt.trim\<close> is not a
  function (a parsed object holds no function, even under the name \<^verbatim>\<open>trim\<close>) and
  the call throws.
\<close>

fun call_trim :: "jsval \<Rightarrow> js_error + jsstring" where
  "call_trim (JStr s) = Inr (trim s)"
| "call_trim JUndefined =
     Inl (TypeError (js (''Cannot read properties of undefined (reading '' @ [CHR 39] @ ''trim'' @ [CHR 39] @ '')'')))"
| "call_trim JNull =
     Inl (TypeError (js (''Cannot read properties of null (reading '' @ [CHR 39] @ ''trim'' @ [CHR 39] @ '')'')))"
| "call_trim v = Inl (TypeError (js ''prompt.trim is not a function''))"

section \<open>The environment: credentials and the network\<close>

text \<open>\<^verbatim>\<open>process.env\<close>: each key is a string or absent (\<^verbatim>\<open>undefined\<close>).\<close>

record env =
  OPENAI_API_KEY :: "jsstring option"
  ANTHROPIC_API_KEY :: "jsstring option"
  GOOGLE_API_KEY :: "jsstring option"

text \<open>A template literal \<^verbatim>\<open>${process.env.X}\<close> prints an absent key as \<^verbatim>\<open>undefined\<close>;
  used as a value, an absent key is \<^verbatim>\<open>undefined\<close>.\<close>

fun env_text :: "jsstring option \<Rightarrow> jsstring" where
  "env_text None = js ''undefined''"
| "env_text (Some k) = k"

fun env_value :: "jsstring option \<Rightarrow> jsval" where
  "env_value None = JUndefined"
| "env_value (Some k) = JStr k"


text \<open>The properties of an object literal, to inspect the request bodies the adapters
  build (no other value is inspected this way).\<close>

fun own_properties :: "jsval \<Rightarrow> (jsstring \<times> jsval) list" where
  "own_properties (JObj kvs) = kvs"
| "own_properties v = []"

text \<open>The three arguments of \<^verbatim>\<open>axios.post(url, data, { headers })\<close>.\<close>

record http_request =
  url :: jsstring
  data :: jsval
  headers :: "(jsstring \<times> jsval) list"

text \<open>
  The outcome of one outbound call is outside the program. axios rejects on a network
  error and on a status outside 2xx (which is how a missing or wrong credential shows), with
  an error that has a message; otherwise it fulfils with a response whose \<^verbatim>\<open>data\<close> is
  the parsed body. The network is a parameter: the outcome of each request.
\<close>

datatype http_outcome = Rejected jsstring | Fulfilled jsval

type_synonym network = "http_request \<Rightarrow> http_outcome"

fun axios_post :: "network \<Rightarrow> http_request \<Rightarrow> js_error + jsval" where
  "axios_post net req = (case net req of Rejected m \<Rightarrow> Inl (AxiosError m) | Fulfilled d \<Rightarrow> Inr d)"

text \<open>For examples: a network that answers every request alike, and a process started
  with no credential configured.\<close>

definition always :: "http_outcome \<Rightarrow> network" where
  "always out req = out"

definition no_keys :: env where
  "no_keys = \<lparr>OPENAI_API_KEY = None, ANTHROPIC_API_KEY = None, GOOGLE_API_KEY = None\<rparr>"

section \<open>Execution traces\<close>

text \<open>
  What a run does besides answering: it calls \<^verbatim>\<open>prompt.trim()\<close>, it invokes an
  adapter with an argument, an adapter posts a request. Events are listed in program
  order. Console output is not recorded.
\<close>

datatype model = ModelA | ModelB | ModelC

datatype event = Trim jsval | Call model jsval | Post http_request

fun posts :: "event list \<Rightarrow> http_request list" where
  "posts [] = []"
| "posts (Post r # es) = r # posts es"
| "posts (e # es) = posts es"

fun calls :: "event list \<Rightarrow> (model \<times> jsval) list" where
  "calls [] = []"
| "calls (Call m v # es) = (m, v) # calls es"
| "calls (e # es) = calls es"

fun trims :: "event list \<Rightarrow> jsval list" where
  "trims [] = []"
| "trims (Trim v # es) = v # trims es"
| "trims (e # es) = trims es"

section \<open>Provider adapters\<close>

text \<open>The request each adapter builds from its argument, and the path at which it reads
  the text of the response.\<close>

definition requestA :: "env \<Rightarrow> jsval \<Rightarrow> http_request" where
  "requestA env prompt =
     \<lparr>url = js ''https://api.openai.com/v1/chat/completions'',
      data = JObj
        [(js ''model'', JStr (js ''gpt-4'')),
         (js ''messages'', JArr [JObj [(js ''role'', JStr (js ''user'')), (js ''content'', prompt)]]),
         (js ''max_tokens'', JNum (Finite 500))],
      headers =
        [(js ''Authorization'', JStr (js ''Bearer '' @ env_text (OPENAI_API_KEY env))),
         (js ''Content-Type'', JStr (js ''application/json''))]\<rparr>"

definition pathA :: "key list" where
  "pathA = [Fld F_choices, Idx0, Fld F_message, Fld F_content]"

definition requestB :: "env \<Rightarrow> jsval \<Rightarrow> http_request" where
  "requestB env prompt =
     \<lparr>url = js ''https://api.anthropic.com/v1/messages'',
      data = JObj
        [(js ''model'', JStr (js ''claude-3-opus-20240229'')),
         (js ''max_tokens'', JNum (Finite 500)),
         (js ''messages'', JArr [JObj [(js ''role'', JStr (js ''user'')), (js ''content'', prompt)]])],
      headers =
        [(js ''x-api-key'', env_value (ANTHROPIC_API_KEY env)),
         (js ''Content-Type'', JStr (js ''application/json'')),
         (js ''anthropic-version'', JStr (js ''2023-06-01''))]\<rparr>"

definition pathB :: "key list" where
  "pathB = [Fld F_content, Idx0, Fld F_text]"

definition requestC :: "env \<Rightarrow> jsval \<Rightarrow> http_request" where
  "requestC env prompt =
     \<lparr>url = js ''https://generativelanguage.googleapis.com/v1beta/models/gemini-pro:generateContent?key=''
             @ env_text (GOOGLE_API_KEY env),
      data = JObj
        [(js ''contents'', JArr [JObj [(js ''parts'', JArr [JObj [(js ''text'', prompt)]])]])],
      headers =
        [(js ''Content-Type'', JStr (js ''application/json''))]\<rparr>"

definition pathC :: "key list" where
  "pathC = [Fld F_candidates, Idx0, Fld F_content, Fld F_parts, Idx0, Fld F_text]"

text \<open>The body of an adapter's \<^verbatim>\<open>try\<close> block: post, then read the text.\<close>

definition attempt :: "network \<Rightarrow> http_request \<Rightarrow> key list \<Rightarrow> js_error + jsval" where
  "attempt net req path =
     (case axios_post net req of Inl e \<Rightarrow> Inl e | Inr d \<Rightarrow> get_path d path)"

text \<open>
  An adapter returns what its \<^verbatim>\<open>try\<close> block returned, or the string its
  \<^verbatim>\<open>catch\<close> block builds. The result type keeps a place for a rejection (\<open>Inl\<close>), which
  the handler's own \<^verbatim>\<open>try\<close> would see.
\<close>

definition callModelA :: "env \<Rightarrow> network \<Rightarrow> jsval \<Rightarrow> (js_error + jsval) \<times> event list" where
  "callModelA env net prompt =
     (let req = requestA env prompt in
      (case attempt net req pathA of
         Inr text \<Rightarrow> Inr text
       | Inl error \<Rightarrow> Inr (JStr (js ''Error calling Model A: '' @ message error)),
       [Call ModelA prompt, Post req]))"

definition callModelB :: "env \<Rightarrow> network \<Rightarrow> jsval \<Rightarrow> (js_error + jsval) \<times> event list" where
  "callModelB env net prompt =
     (let req = requestB env prompt in
      (case attempt net req pathB of
         Inr text \<Rightarrow> Inr text
       | Inl error \<Rightarrow> Inr (JStr (js ''Error calling Model B: '' @ message error)),
       [Call ModelB prompt, Post req]))"

definition callModelC :: "env \<Rightarrow> network \<Rightarrow> jsval \<Rightarrow> (js_error + jsval) \<times> event list" where
  "callModelC env net prompt =
     (let req = requestC env prompt in
      (case attempt net req pathC of
         Inr text \<Rightarrow> Inr text
       | Inl error \<Rightarrow> Inr (JStr (js ''Error calling Model C: '' @ message error)),
       [Call ModelC prompt, Post req]))"

section \<open>The handlers\<close>

text \<open>A handler answers with a status and the value it hands to \<^verbatim>\<open>res.json\<close>, or it
  throws before answering (the promise of the \<^verbatim>\<open>async\<close> handler rejects).\<close>

datatype outcome = Responded nat jsval | Unhandled js_error

text \<open>\<^verbatim>\<open>const { prompt } = req.body\<close>\<close>

fun destructure_prompt :: "jsval \<Rightarrow> js_error + jsval" where
  "destructure_prompt JUndefined =
     Inl (TypeError (js (''Cannot destructure property '' @ [CHR 39] @ ''prompt'' @ [CHR 39] @ '' of ''
        @ [CHR 39] @ ''req.body'' @ [CHR 39] @ '' as it is undefined.'')))"
| "destructure_prompt JNull =
     Inl (TypeError (js (''Cannot destructure property '' @ [CHR 39] @ ''prompt'' @ [CHR 39] @ '' of ''
        @ [CHR 39] @ ''req.body'' @ [CHR 39] @ '' as it is null.'')))"
| "destructure_prompt body = get body (Fld F_prompt)"

text \<open>\<^verbatim>\<open>!prompt || prompt.trim().length === 0\<close>: the right operand runs only when the
  left one is false.\<close>

definition invalid :: "jsval \<Rightarrow> (js_error + bool) \<times> event list" where
  "invalid prompt =
     (if \<not> truthy prompt then (Inr True, [])
      else (case call_trim prompt of
              Inl e \<Rightarrow> (Inl e, [Trim prompt])
            | Inr t \<Rightarrow> (Inr (length t = 0), [Trim prompt])))"

text \<open>\<^verbatim>\<open>Promise.all\<close> of three promises that have all been started: the three results,
  or a rejection (of several, the model takes the first in the order A, B, C; the handler
  treats every rejection alike).\<close>

fun promise_all :: "js_error + jsval \<Rightarrow> js_error + jsval \<Rightarrow> js_error + jsval \<Rightarrow> js_error + jsval \<times> jsval \<times> jsval" where
  "promise_all (Inr a) (Inr b) (Inr c) = Inr (a, b, c)"
| "promise_all (Inl e) b c = Inl e"
| "promise_all a (Inl e) c = Inl e"
| "promise_all a b (Inl e) = Inl e"

text \<open>
  The handler of \<^verbatim>\<open>POST /api/compare\<close>, applied to \<^verbatim>\<open>req.body\<close>. The
  destructuring and the validation stand before the \<^verbatim>\<open>try\<close> block, so what they throw
  is not caught. The \<^verbatim>\<open>console.log\<close> between them and the \<^verbatim>\<open>try\<close> calls
  \<^verbatim>\<open>substring\<close> on a prompt that is a string at that point; it throws nothing and is left
  out. \<^verbatim>\<open>res.json\<close> without \<^verbatim>\<open>res.status\<close> answers with status 200.
\<close>

definition compare :: "env \<Rightarrow> network \<Rightarrow> jsval \<Rightarrow> outcome \<times> event list" where
  "compare env net body =
     (case destructure_prompt body of
        Inl e \<Rightarrow> (Unhandled e, [])
      | Inr prompt \<Rightarrow>
          (case invalid prompt of
             (Inl e, t) \<Rightarrow> (Unhandled e, t)
           | (Inr True, t) \<Rightarrow>
               (Responded 400 (JObj [(js ''error'', JStr (js ''Prompt cannot be empty''))]), t)
           | (Inr False, t) \<Rightarrow>
               (let (pA, tA) = callModelA env net prompt;
                    (pB, tB) = callModelB env net prompt;
                    (pC, tC) = callModelC env net prompt
                in (case promise_all pA pB pC of
                      Inr (responseA, responseB, responseC) \<Rightarrow>
                        Responded 200 (JObj
                          [(js ''modelA'', responseA), (js ''modelB'', responseB), (js ''modelC'', responseC)])
                    | Inl error \<Rightarrow>
                        Responded 500 (JObj [(js ''error'', JStr (js ''Internal server error''))]),
                    t @ tA @ tB @ tC))))"

text \<open>\<^verbatim>\<open>GET /api/health\<close> reads nothing of the request, the environment or the network.\<close>

definition health :: "env \<Rightarrow> network \<Rightarrow> jsval \<Rightarrow> outcome \<times> event list" where
  "health env net req = (Responded 200 (JObj [(js ''status'', JStr (js ''Server is running''))]), [])"

section \<open>What is sent\<close>

text \<open>
  \<^verbatim>\<open>res.json(v)\<close> sends the text \<^verbatim>\<open>JSON.stringify(v)\<close>. The text is kept by the
  value a client parses from it: a property whose value is \<^verbatim>\<open>undefined\<close> is left
  out, an \<^verbatim>\<open>undefined\<close> array element and a number that is not finite are written
  \<^verbatim>\<open>null\<close>, and for \<^verbatim>\<open>undefined\<close> itself there is no text. Of several bindings
  of a name only the first is a property (the names already written are passed along).
\<close>

function (sequential) stringify :: "jsval \<Rightarrow> jsval option"
  and stringify_elements :: "jsval list \<Rightarrow> jsval list"
  and stringify_properties :: "jsstring list \<Rightarrow> (jsstring \<times> jsval) list \<Rightarrow> (jsstring \<times> jsval) list"
where
  "stringify JUndefined = None"
| "stringify JNull = Some JNull"
| "stringify (JBool b) = Some (JBool b)"
| "stringify (JNum n) = Some (case n of Finite q \<Rightarrow> JNum (Finite q) | PosInf \<Rightarrow> JNull | NegInf \<Rightarrow> JNull | NaN \<Rightarrow> JNull)"
| "stringify (JStr s) = Some (JStr s)"
| "stringify (JArr xs) = Some (JArr (stringify_elements xs))"
| "stringify (JObj kvs) = Some (JObj (stringify_properties [] kvs))"
| "stringify_elements [] = []"
| "stringify_elements (x # xs) =
     (case stringify x of None \<Rightarrow> JNull | Some y \<Rightarrow> y) # stringify_elements xs"
| "stringify_properties seen [] = []"
| "stringify_properties seen ((k, v) # kvs) =
     (if k \<in> set seen then stringify_properties seen kvs
      else (case stringify v of
              None \<Rightarrow> stringify_properties (k # seen) kvs
            | Some y \<Rightarrow> (k, y) # stringify_properties (k # seen) kvs))"
  by pat_completeness auto
termination
  by (relation "measure (\<lambda>x. case x of
        Inl v \<Rightarrow> size v
      | Inr (Inl xs) \<Rightarrow> size_list size xs
      | Inr (Inr (seen, kvs)) \<Rightarrow> size_list (size_prod (\<lambda>k. 0) size) kvs)") auto

text \<open>The body a client receives; a handler that throws before answering sends none.\<close>

fun body_sent :: "outcome \<Rightarrow> jsval option" where
  "body_sent (Responded status v) = stringify v"
| "body_sent (Unhandled e) = None"

text \<open>For examples: a response body that holds a text at the path of each adapter.\<close>

definition full_answer :: jsval where
  "full_answer = JObj
     [(js ''choices'', JArr [JObj [(js ''message'', JObj [(js ''content'', JStr (js ''one''))])]]),
      (js ''content'', JArr [JObj [(js ''text'', JStr (js ''two''))]]),
      (js ''candidates'',
         JArr [JObj [(js ''content'', JObj [(js ''parts'', JArr [JObj [(js ''text'', JStr (js ''three''))]])])]])]"

text \<open>For examples: a response body of an unexpected shape, in which every adapter's path
  reads to the end without a throw and finds nothing.\<close>

definition hollow_answer :: jsval where
  "hollow_answer = JObj
     [(js ''choices'', JArr [JObj [(js ''message'', JObj [])]]),
      (js ''content'', JArr [JObj []]),
      (js ''candidates'', JArr [JObj [(js ''content'', JObj [(js ''parts'', JArr [JObj []])])]])]"

section \<open>Basic facts\<close>

subsection \<open>Validation\<close>

lemma trim_Nil: "trim [] = []"
  by (simp add: trim_def)

lemma invalid_valid_string: "trim s \<noteq> [] \<Longrightarrow> invalid (JStr s) = (Inr False, [Trim (JStr s)])"
  by (auto simp: invalid_def trim_Nil)

lemma falsy_values:
  "\<not> truthy JUndefined" "\<not> truthy JNull" "\<not> truthy (JBool False)" "\<not> truthy (JNum (Finite 0))"
  "\<not> truthy (JNum NaN)" "\<not> truthy (JStr [])"
  by simp_all

lemma absent_prompt: "destructure_prompt (JObj []) = Inr JUndefined"
  by simp

subsection \<open>Adapters\<close>

lemma callModelA_result:
  "fst (callModelA env net p) =
     Inr (case attempt net (requestA env p) pathA of
            Inr v \<Rightarrow> v | Inl e \<Rightarrow> JStr (js ''Error calling Model A: '' @ message e))"
  by (simp add: callModelA_def Let_def split: sum.split)

lemma callModelB_result:
  "fst (callModelB env net p) =
     Inr (case attempt net (requestB env p) pathB of
            Inr v \<Rightarrow> v | Inl e \<Rightarrow> JStr (js ''Error calling Model B: '' @ message e))"
  by (simp add: callModelB_def Let_def split: sum.split)

lemma callModelC_result:
  "fst (callModelC env net p) =
     Inr (case attempt net (requestC env p) pathC of
            Inr v \<Rightarrow> v | Inl e \<Rightarrow> JStr (js ''Error calling Model C: '' @ message e))"
  by (simp add: callModelC_def Let_def split: sum.split)

lemma callModelA_trace: "snd (callModelA env net p) = [Call ModelA p, Post (requestA env p)]"
  by (simp add: callModelA_def Let_def)

lemma callModelB_trace: "snd (callModelB env net p) = [Call ModelB p, Post (requestB env p)]"
  by (simp add: callModelB_def Let_def)

lemma callModelC_trace: "snd (callModelC env net p) = [Call ModelC p, Post (requestC env p)]"
  by (simp add: callModelC_def Let_def)

text \<open>The three requests go to three different URLs, whatever the credentials are.\<close>

lemma requests_distinct:
  "requestA env p \<noteq> requestB env p" "requestA env p \<noteq> requestC env p" "requestB env p \<noteq> requestC env p"
  by (simp_all add: requestA_def requestB_def requestC_def js_def)

lemma attempt_upd_other: "r \<noteq> r' \<Longrightarrow> attempt (net(r' := out)) r path = attempt net r path"
  by (simp add: attempt_def)

subsection \<open>The comparison handler on a prompt that passes validation\<close>

lemma compare_dispatch:
  assumes "destructure_prompt body = Inr p" and "invalid p = (Inr False, t)"
    and "fst (callModelA env net p) = Inr a"
    and "fst (callModelB env net p) = Inr b"
    and "fst (callModelC env net p) = Inr c"
  shows "compare env net body =
    (Responded 200 (JObj [(js ''modelA'', a), (js ''modelB'', b), (js ''modelC'', c)]),
     t @ snd (callModelA env net p) @ snd (callModelB env net p) @ snd (callModelC env net p))"
  using assms by (simp add: compare_def split_beta)

lemma compare_run:
  assumes "destructure_prompt body = Inr p" and "invalid p = (Inr False, t)"
  shows "compare env net body =
    (Responded 200 (JObj
       [(js ''modelA'', case attempt net (requestA env p) pathA of
            Inr v \<Rightarrow> v | Inl e \<Rightarrow> JStr (js ''Error calling Model A: '' @ message e)),
        (js ''modelB'', case attempt net (requestB env p) pathB of
            Inr v \<Rightarrow> v | Inl e \<Rightarrow> JStr (js ''Error calling Model B: '' @ message e)),
        (js ''modelC'', case attempt net (requestC env p) pathC of
            Inr v \<Rightarrow> v | Inl e \<Rightarrow> JStr (js ''Error calling Model C: '' @ message e))]),
     t @ [Call ModelA p, Post (requestA env p), Call ModelB p, Post (requestB env p),
          Call ModelC p, Post (requestC env p)])"
  using compare_dispatch [OF assms callModelA_result callModelB_result callModelC_result, of env net]
  by (simp add: callModelA_trace callModelB_trace callModelC_trace)

text \<open>Only a prompt that passed validation leads to the answer with the three slots.\<close>

lemma compare_200_valid:
  assumes "destructure_prompt body = Inr p"
    and "fst (compare env net body) =
      Responded 200 (JObj [(js ''modelA'', a), (js ''modelB'', b), (js ''modelC'', c)])"
  shows "\<exists>t. invalid p = (Inr False, t)"
proof (cases "invalid p")
  case (Pair r t)
  show ?thesis
  proof (cases r)
    case (Inl e)
    with Pair assms show ?thesis by (simp add: compare_def)
  next
    case (Inr bad)
    with Pair assms show ?thesis by (cases bad) (simp_all add: compare_def)
  qed
qed

subsection \<open>The body sent\<close>

text \<open>The answer with the three slots, as sent: a slot is written when its value has a
  text. A string is sent as it is.\<close>

lemma stringify_slots:
  "stringify (JObj [(js ''modelA'', a), (js ''modelB'', b), (js ''modelC'', c)]) =
     Some (JObj
       ((case stringify a of None \<Rightarrow> [] | Some y \<Rightarrow> [(js ''modelA'', y)]) @
        (case stringify b of None \<Rightarrow> [] | Some y \<Rightarrow> [(js ''modelB'', y)]) @
        (case stringify c of None \<Rightarrow> [] | Some y \<Rightarrow> [(js ''modelC'', y)])))"
  by (simp add: js_def split: option.split)


section \<open>Provider adapters: what is caught\<close>

text \<open>
  C1, as stated: on every failure of the outbound call, a malformed or unexpected
  response shape included, an adapter returns the string
  \<^verbatim>\<open>Error calling <label>: <message>\<close>. It does not hold for a response whose shape
  is wrong only at the last step of the path: for the body
  \<^verbatim>\<open>{"choices": [{"message": {}}]}\<close> nothing throws, and \<^verbatim>\<open>callModelA\<close> returns
  \<^verbatim>\<open>undefined\<close>.
\<close>

theorem adapter_returns_undefined_on_missing_content:
  "fst (callModelA no_keys
          (always (Fulfilled (JObj [(js ''choices'', JArr [JObj [(js ''message'', JObj [])]])])))
          (JStr (js ''hi'')))
   = Inr JUndefined"
  by (simp add: callModelA_def attempt_def always_def pathA_def js_def)

text \<open>
  C1, amended: no adapter ever throws or rejects (its result is always \<open>Inr\<close>). When
  the call is rejected with message \<open>m\<close> (network error, status outside 2xx, missing
  credentials) the result is the string \<^verbatim>\<open>Error calling Model X: \<close> followed by \<open>m\<close>;
  when the call is fulfilled and reading the fixed path throws, the result is that prefix
  followed by the message of the thrown error; when reading the path throws nothing, the
  result is the value found at the path, whatever it is.
\<close>

theorem adapters_catch_what_is_thrown:
  "fst (callModelA env net p) =
     Inr (case net (requestA env p) of
            Rejected m \<Rightarrow> JStr (js ''Error calling Model A: '' @ m)
          | Fulfilled d \<Rightarrow>
              (case get_path d pathA of
                 Inl e \<Rightarrow> JStr (js ''Error calling Model A: '' @ message e)
               | Inr v \<Rightarrow> v)) \<and>
   fst (callModelB env net p) =
     Inr (case net (requestB env p) of
            Rejected m \<Rightarrow> JStr (js ''Error calling Model B: '' @ m)
          | Fulfilled d \<Rightarrow>
              (case get_path d pathB of
                 Inl e \<Rightarrow> JStr (js ''Error calling Model B: '' @ message e)
               | Inr v \<Rightarrow> v)) \<and>
   fst (callModelC env net p) =
     Inr (case net (requestC env p) of
            Rejected m \<Rightarrow> JStr (js ''Error calling Model C: '' @ m)
          | Fulfilled d \<Rightarrow>
              (case get_path d pathC of
                 Inl e \<Rightarrow> JStr (js ''Error calling Model C: '' @ message e)
               | Inr v \<Rightarrow> v))"
  by (simp add: callModelA_result callModelB_result callModelC_result attempt_def
      split: http_outcome.split sum.split)

section \<open>The comparison endpoint on a valid prompt\<close>




section \<open>Validation\<close>

text \<open>
  C3: a request whose prompt is not a present, non-blank string is answered with HTTP 400
  and \<^verbatim>\<open>{ "error": "Prompt cannot be empty" }\<close>, and no adapter is invoked. The code
  does so for a missing or falsy prompt and for a blank string, but not for a truthy value
  that is not a string: for the body \<^verbatim>\<open>{"prompt": 123}\<close> the test
  \<^verbatim>\<open>prompt.trim()\<close> throws a \<^verbatim>\<open>TypeError\<close> outside the handler's \<^verbatim>\<open>try\<close>, and
  the handler answers nothing.
\<close>

theorem compare_number_prompt_unhandled:
  "compare env net (JObj [(js ''prompt'', JNum (Finite 123))]) =
     (Unhandled (TypeError (js ''prompt.trim is not a function'')), [Trim (JNum (Finite 123))])"
  by (simp add: compare_def invalid_def js_def)

text \<open>The part of the validation that works: a blank string is refused and nothing is
  called.\<close>

lemma compare_blank_string_400:
  assumes "destructure_prompt body = Inr (JStr s)" and "trim s = []"
  shows "fst (compare env net body) =
           Responded 400 (JObj [(js ''error'', JStr (js ''Prompt cannot be empty''))]) \<and>
         calls (snd (compare env net body)) = [] \<and> posts (snd (compare env net body)) = []"
  using assms by (simp add: compare_def invalid_def)

text \<open>
  C10: the falsiness test runs before \<^verbatim>\<open>prompt.trim()\<close>. For every falsy prompt
  (an absent field, \<^verbatim>\<open>null\<close>, \<^verbatim>\<open>false\<close>, \<^verbatim>\<open>0\<close>, the empty string; see
  \<open>falsy_values\<close>) the handler answers HTTP 400 with the fixed body, throws nothing, and
  its trace is empty: \<^verbatim>\<open>trim\<close> is never called.
\<close>

theorem falsy_prompt_400_without_trim:
  assumes "destructure_prompt body = Inr p" and "\<not> truthy p"
  shows "compare env net body =
           (Responded 400 (JObj [(js ''error'', JStr (js ''Prompt cannot be empty''))]), []) \<and>
         trims (snd (compare env net body)) = []"
  using assms by (simp add: compare_def invalid_def)

text \<open>The body \<^verbatim>\<open>{"prompt": 0}\<close>: a falsy prompt that has no \<^verbatim>\<open>trim\<close>.\<close>

theorem falsy_prompt_400_without_trim_witness:
  "destructure_prompt (JObj [(js ''prompt'', JNum (Finite 0))]) = Inr (JNum (Finite 0)) \<and>
   \<not> truthy (JNum (Finite 0)) \<and>
   compare no_keys (always (Rejected (js ''Network Error''))) (JObj [(js ''prompt'', JNum (Finite 0))]) =
     (Responded 400 (JObj [(js ''error'', JStr (js ''Prompt cannot be empty''))]), [])"
proof -
  have body: "destructure_prompt (JObj [(js ''prompt'', JNum (Finite 0))]) = Inr (JNum (Finite 0))"
    by (simp add: js_def)
  have falsy: "\<not> truthy (JNum (Finite 0))"
    by simp
  from falsy_prompt_400_without_trim [OF body falsy]
  show ?thesis using body falsy by simp
qed

section \<open>Failure isolation\<close>

text \<open>
  C4, as stated: when all three providers fail on a request that passed validation, the
  answer is HTTP 200 with three error-prefixed strings. It does not hold for the failure
  of an unexpected response shape that reads without a throw: when every provider answers
  such a body, the answer is HTTP 200, the three slots handed to \<^verbatim>\<open>res.json\<close> are
  \<^verbatim>\<open>undefined\<close> and the body sent is \<^verbatim>\<open>{}\<close>.
\<close>

theorem all_hollow_answers_leave_no_error_string:
  "fst (compare no_keys (always (Fulfilled hollow_answer)) (JObj [(js ''prompt'', JStr (js ''hi''))])) =
     Responded 200 (JObj
       [(js ''modelA'', JUndefined), (js ''modelB'', JUndefined), (js ''modelC'', JUndefined)]) \<and>
   body_sent (fst (compare no_keys (always (Fulfilled hollow_answer)) (JObj [(js ''prompt'', JStr (js ''hi''))])))
     = Some (JObj [])"
  by (simp add: compare_def invalid_def trim_def is_space_def callModelA_def callModelB_def callModelC_def
      attempt_def always_def hollow_answer_def pathA_def pathB_def pathC_def js_def)

text \<open>
  C4, amended: on a request that passed validation the answer is HTTP 200 whatever the
  providers do, never HTTP 500. Each provider whose attempt throws (its call is rejected,
  or reading its response throws) has the error string of its adapter in its slot; when all
  three fail in that way, the body sent holds the three error strings.
\<close>

theorem provider_failures_never_escalate:
  assumes "destructure_prompt body = Inr (JStr s)" and "trim s \<noteq> []"
  shows "\<exists>a b c.
    fst (compare env net body) =
      Responded 200 (JObj [(js ''modelA'', a), (js ''modelB'', b), (js ''modelC'', c)]) \<and>
    (\<forall>e. attempt net (requestA env (JStr s)) pathA = Inl e \<longrightarrow>
       a = JStr (js ''Error calling Model A: '' @ message e)) \<and>
    (\<forall>e. attempt net (requestB env (JStr s)) pathB = Inl e \<longrightarrow>
       b = JStr (js ''Error calling Model B: '' @ message e)) \<and>
    (\<forall>e. attempt net (requestC env (JStr s)) pathC = Inl e \<longrightarrow>
       c = JStr (js ''Error calling Model C: '' @ message e)) \<and>
    (\<forall>eA eB eC.
       attempt net (requestA env (JStr s)) pathA = Inl eA \<and>
       attempt net (requestB env (JStr s)) pathB = Inl eB \<and>
       attempt net (requestC env (JStr s)) pathC = Inl eC \<longrightarrow>
       body_sent (fst (compare env net body)) =
         Some (JObj
           [(js ''modelA'', JStr (js ''Error calling Model A: '' @ message eA)),
            (js ''modelB'', JStr (js ''Error calling Model B: '' @ message eB)),
            (js ''modelC'', JStr (js ''Error calling Model C: '' @ message eC))]))"
proof -
  let ?a = "case attempt net (requestA env (JStr s)) pathA of
              Inr v \<Rightarrow> v | Inl e \<Rightarrow> JStr (js ''Error calling Model A: '' @ message e)"
  let ?b = "case attempt net (requestB env (JStr s)) pathB of
              Inr v \<Rightarrow> v | Inl e \<Rightarrow> JStr (js ''Error calling Model B: '' @ message e)"
  let ?c = "case attempt net (requestC env (JStr s)) pathC of
              Inr v \<Rightarrow> v | Inl e \<Rightarrow> JStr (js ''Error calling Model C: '' @ message e)"
  note run = compare_run [OF assms(1) invalid_valid_string [OF assms(2)], of env net]
  have answer: "fst (compare env net body) =
      Responded 200 (JObj [(js ''modelA'', ?a), (js ''modelB'', ?b), (js ''modelC'', ?c)])"
    by (simp add: run)
  have A: "\<forall>e. attempt net (requestA env (JStr s)) pathA = Inl e \<longrightarrow>
       ?a = JStr (js ''Error calling Model A: '' @ message e)"
    by simp
  have B: "\<forall>e. attempt net (requestB env (JStr s)) pathB = Inl e \<longrightarrow>
       ?b = JStr (js ''Error calling Model B: '' @ message e)"
    by simp
  have C: "\<forall>e. attempt net (requestC env (JStr s)) pathC = Inl e \<longrightarrow>
       ?c = JStr (js ''Error calling Model C: '' @ message e)"
    by simp
  have sent: "\<forall>eA eB eC.
       attempt net (requestA env (JStr s)) pathA = Inl eA \<and>
       attempt net (requestB env (JStr s)) pathB = Inl eB \<and>
       attempt net (requestC env (JStr s)) pathC = Inl eC \<longrightarrow>
       body_sent (fst (compare env net body)) =
         Some (JObj
           [(js ''modelA'', JStr (js ''Error calling Model A: '' @ message eA)),
            (js ''modelB'', JStr (js ''Error calling Model B: '' @ message eB)),
            (js ''modelC'', JStr (js ''Error calling Model C: '' @ message eC))])"
    unfolding answer body_sent.simps stringify_slots by simp
  from answer A B C sent show ?thesis by blast
qed

text \<open>The prompt \<^verbatim>\<open>hi\<close> on a network where every call is rejected.\<close>

theorem provider_failures_never_escalate_witness:
  "destructure_prompt (JObj [(js ''prompt'', JStr (js ''hi''))]) = Inr (JStr (js ''hi'')) \<and>
   trim (js ''hi'') \<noteq> [] \<and>
   attempt (always (Rejected (js ''Network Error''))) (requestA no_keys (JStr (js ''hi''))) pathA
     = Inl (AxiosError (js ''Network Error'')) \<and>
   attempt (always (Rejected (js ''Network Error''))) (requestB no_keys (JStr (js ''hi''))) pathB
     = Inl (AxiosError (js ''Network Error'')) \<and>
   attempt (always (Rejected (js ''Network Error''))) (requestC no_keys (JStr (js ''hi''))) pathC
     = Inl (AxiosError (js ''Network Error'')) \<and>
   fst (compare no_keys (always (Rejected (js ''Network Error''))) (JObj [(js ''prompt'', JStr (js ''hi''))])) =
     Responded 200 (JObj
       [(js ''modelA'', JStr (js ''Error calling Model A: Network Error'')),
        (js ''modelB'', JStr (js ''Error calling Model B: Network Error'')),
        (js ''modelC'', JStr (js ''Error calling Model C: Network Error''))]) \<and>
   body_sent (fst (compare no_keys (always (Rejected (js ''Network Error'')))
       (JObj [(js ''prompt'', JStr (js ''hi''))]))) =
     Some (JObj
       [(js ''modelA'', JStr (js ''Error calling Model A: Network Error'')),
        (js ''modelB'', JStr (js ''Error calling Model B: Network Error'')),
        (js ''modelC'', JStr (js ''Error calling Model C: Network Error''))])"
proof -
  have body: "destructure_prompt (JObj [(js ''prompt'', JStr (js ''hi''))]) = Inr (JStr (js ''hi''))"
    by (simp add: js_def)
  have nonblank: "trim (js ''hi'') \<noteq> []"
    by (simp add: trim_def js_def is_space_def)
  have A: "attempt (always (Rejected (js ''Network Error''))) (requestA no_keys (JStr (js ''hi''))) pathA
     = Inl (AxiosError (js ''Network Error''))"
    by (simp add: attempt_def always_def)
  have B: "attempt (always (Rejected (js ''Network Error''))) (requestB no_keys (JStr (js ''hi''))) pathB
     = Inl (AxiosError (js ''Network Error''))"
    by (simp add: attempt_def always_def)
  have C: "attempt (always (Rejected (js ''Network Error''))) (requestC no_keys (JStr (js ''hi''))) pathC
     = Inl (AxiosError (js ''Network Error''))"
    by (simp add: attempt_def always_def)
  from provider_failures_never_escalate [OF body nonblank, of no_keys "always (Rejected (js ''Network Error''))"]
  show ?thesis using body nonblank A B C by (auto simp: js_def)
qed

text \<open>
  C5, adapter independence as a property of two runs: take a run that answered with the
  three slots, and a second run on the same request in which the outcome of one provider's
  call is replaced by any other outcome. The second run answers HTTP 200 too, the slots of
  the other two providers are the same in both runs, and so is the whole trace (the same
  invocations with the same argument, the same requests posted).
\<close>

theorem adapter_independence:
  assumes body: "destructure_prompt body = Inr p"
    and run: "fst (compare env net body) =
      Responded 200 (JObj [(js ''modelA'', a), (js ''modelB'', b), (js ''modelC'', c)])"
  shows "(\<exists>a'. fst (compare env (net(requestA env p := out)) body) =
            Responded 200 (JObj [(js ''modelA'', a'), (js ''modelB'', b), (js ''modelC'', c)])) \<and>
         (\<exists>b'. fst (compare env (net(requestB env p := out)) body) =
            Responded 200 (JObj [(js ''modelA'', a), (js ''modelB'', b'), (js ''modelC'', c)])) \<and>
         (\<exists>c'. fst (compare env (net(requestC env p := out)) body) =
            Responded 200 (JObj [(js ''modelA'', a), (js ''modelB'', b), (js ''modelC'', c')])) \<and>
         snd (compare env (net(requestA env p := out)) body) = snd (compare env net body) \<and>
         snd (compare env (net(requestB env p := out)) body) = snd (compare env net body) \<and>
         snd (compare env (net(requestC env p := out)) body) = snd (compare env net body)"
proof -
  from compare_200_valid [OF body run] obtain t where valid: "invalid p = (Inr False, t)" ..
  note other = requests_distinct [of env p] requests_distinct [of env p, symmetric]
  from run have slots:
    "a = (case attempt net (requestA env p) pathA of
            Inr v \<Rightarrow> v | Inl e \<Rightarrow> JStr (js ''Error calling Model A: '' @ message e))"
    "b = (case attempt net (requestB env p) pathB of
            Inr v \<Rightarrow> v | Inl e \<Rightarrow> JStr (js ''Error calling Model B: '' @ message e))"
    "c = (case attempt net (requestC env p) pathC of
            Inr v \<Rightarrow> v | Inl e \<Rightarrow> JStr (js ''Error calling Model C: '' @ message e))"
    by (simp_all add: compare_run [OF body valid])
  show ?thesis
    using other by (simp add: compare_run [OF body valid] slots attempt_upd_other)
qed

text \<open>Every provider answers the prompt \<^verbatim>\<open>hi\<close> with a text; then provider B's call
  is made to fail: only the slot \<^verbatim>\<open>modelB\<close> changes.\<close>

theorem adapter_independence_witness:
  "destructure_prompt (JObj [(js ''prompt'', JStr (js ''hi''))]) = Inr (JStr (js ''hi'')) \<and>
   fst (compare no_keys (always (Fulfilled full_answer)) (JObj [(js ''prompt'', JStr (js ''hi''))])) =
     Responded 200 (JObj
       [(js ''modelA'', JStr (js ''one'')), (js ''modelB'', JStr (js ''two'')),
        (js ''modelC'', JStr (js ''three''))]) \<and>
   fst (compare no_keys
          ((always (Fulfilled full_answer))
             (requestB no_keys (JStr (js ''hi'')) := Rejected (js ''Network Error'')))
          (JObj [(js ''prompt'', JStr (js ''hi''))])) =
     Responded 200 (JObj
       [(js ''modelA'', JStr (js ''one'')),
        (js ''modelB'', JStr (js ''Error calling Model B: Network Error'')),
        (js ''modelC'', JStr (js ''three''))])"
proof -
  have body: "destructure_prompt (JObj [(js ''prompt'', JStr (js ''hi''))]) = Inr (JStr (js ''hi''))"
    by (simp add: js_def)
  have run: "fst (compare no_keys (always (Fulfilled full_answer)) (JObj [(js ''prompt'', JStr (js ''hi''))])) =
     Responded 200 (JObj
       [(js ''modelA'', JStr (js ''one'')), (js ''modelB'', JStr (js ''two'')),
        (js ''modelC'', JStr (js ''three''))])"
    by (simp add: compare_def invalid_def trim_def is_space_def callModelA_def callModelB_def callModelC_def
        attempt_def always_def full_answer_def pathA_def pathB_def pathC_def js_def)
  from adapter_independence [OF body run, of "Rejected (js ''Network Error'')"]
  obtain b' where other:
    "fst (compare no_keys
          ((always (Fulfilled full_answer))
             (requestB no_keys (JStr (js ''hi'')) := Rejected (js ''Network Error'')))
          (JObj [(js ''prompt'', JStr (js ''hi''))])) =
     Responded 200 (JObj
       [(js ''modelA'', JStr (js ''one'')), (js ''modelB'', b'), (js ''modelC'', JStr (js ''three''))])"
    by blast
  have "fst (callModelB no_keys
          ((always (Fulfilled full_answer))
             (requestB no_keys (JStr (js ''hi'')) := Rejected (js ''Network Error'')))
          (JStr (js ''hi''))) = Inr (JStr (js ''Error calling Model B: Network Error''))"
    by (simp add: callModelB_result attempt_def js_def)
  moreover have "fst (callModelB no_keys
          ((always (Fulfilled full_answer))
             (requestB no_keys (JStr (js ''hi'')) := Rejected (js ''Network Error'')))
          (JStr (js ''hi''))) = Inr b'"
    using other body
    by (simp add: compare_def invalid_def trim_def is_space_def js_def split_beta
        callModelA_result callModelB_result callModelC_result split: sum.splits)
  ultimately have "b' = JStr (js ''Error calling Model B: Network Error'')" by simp
  with other body run show ?thesis by simp
qed

section \<open>The outbound requests\<close>

text \<open>
  C6, as stated: each of the three outbound requests carries a model identifier and a
  max-output-token cap. It does not hold for adapter C: the body it posts has the single
  property \<^verbatim>\<open>contents\<close>, and no \<^verbatim>\<open>max_tokens\<close>.
\<close>

theorem requestC_has_no_token_cap:
  "map_of (own_properties (data (requestC no_keys (JStr (js ''hi''))))) (js ''max_tokens'') = None \<and>
   map fst (own_properties (data (requestC no_keys (JStr (js ''hi''))))) = [js ''contents'']"
  by (simp add: requestC_def js_def)

text \<open>
  C6, amended: the bodies posted by adapters A and B carry a model identifier
  (\<^verbatim>\<open>gpt-4\<close>, \<^verbatim>\<open>claude-3-opus-20240229\<close>) and the cap \<^verbatim>\<open>max_tokens: 500\<close>. The
  request of adapter C names its model (\<^verbatim>\<open>gemini-pro\<close>) in the URL only; its body is
  the prompt under \<^verbatim>\<open>contents[0].parts[0].text\<close> and nothing else, its only header is
  the content type, and it carries no max-output-token cap.
\<close>

theorem request_configuration:
  "map_of (own_properties (data (requestA env p))) (js ''model'') = Some (JStr (js ''gpt-4'')) \<and>
   map_of (own_properties (data (requestA env p))) (js ''max_tokens'') = Some (JNum (Finite 500)) \<and>
   map_of (own_properties (data (requestB env p))) (js ''model'')
     = Some (JStr (js ''claude-3-opus-20240229'')) \<and>
   map_of (own_properties (data (requestB env p))) (js ''max_tokens'') = Some (JNum (Finite 500)) \<and>
   data (requestC env p) =
     JObj [(js ''contents'', JArr [JObj [(js ''parts'', JArr [JObj [(js ''text'', p)]])]])] \<and>
   url (requestC env p) =
     js ''https://generativelanguage.googleapis.com/v1beta/models/gemini-pro:generateContent?key=''
       @ env_text (GOOGLE_API_KEY env) \<and>
   headers (requestC env p) = [(js ''Content-Type'', JStr (js ''application/json''))]"
  by (simp add: requestA_def requestB_def requestC_def js_def)

text \<open>
  C9: the prompt is forwarded as received, untrimmed. For every prompt that passes
  validation the handler posts exactly the three requests built from the original string,
  and the text in each request body is that string, code unit for code unit.
\<close>

theorem prompt_forwarded_untrimmed:
  assumes "destructure_prompt body = Inr (JStr s)" and "trim s \<noteq> []"
  shows "posts (snd (compare env net body)) =
           [requestA env (JStr s), requestB env (JStr s), requestC env (JStr s)] \<and>
    data (requestA env (JStr s)) = JObj
      [(js ''model'', JStr (js ''gpt-4'')),
       (js ''messages'', JArr [JObj [(js ''role'', JStr (js ''user'')), (js ''content'', JStr s)]]),
       (js ''max_tokens'', JNum (Finite 500))] \<and>
    data (requestB env (JStr s)) = JObj
      [(js ''model'', JStr (js ''claude-3-opus-20240229'')),
       (js ''max_tokens'', JNum (Finite 500)),
       (js ''messages'', JArr [JObj [(js ''role'', JStr (js ''user'')), (js ''content'', JStr s)]])] \<and>
    data (requestC env (JStr s)) = JObj
      [(js ''contents'', JArr [JObj [(js ''parts'', JArr [JObj [(js ''text'', JStr s)]])]])]"
  by (simp add: compare_run [OF assms(1) invalid_valid_string [OF assms(2)]]
      requestA_def requestB_def requestC_def)

text \<open>The prompt \<^verbatim>\<open>"  hi  "\<close> trims to \<^verbatim>\<open>"hi"\<close>, and goes out with its spaces.\<close>

theorem prompt_forwarded_untrimmed_witness:
  "destructure_prompt (JObj [(js ''prompt'', JStr (js ''  hi  ''))]) = Inr (JStr (js ''  hi  '')) \<and>
   trim (js ''  hi  '') = js ''hi'' \<and> trim (js ''  hi  '') \<noteq> [] \<and>
   map data (posts (snd (compare no_keys (always (Rejected (js ''Network Error'')))
      (JObj [(js ''prompt'', JStr (js ''  hi  ''))])))) =
   [JObj
      [(js ''model'', JStr (js ''gpt-4'')),
       (js ''messages'',
          JArr [JObj [(js ''role'', JStr (js ''user'')), (js ''content'', JStr (js ''  hi  ''))]]),
       (js ''max_tokens'', JNum (Finite 500))],
    JObj
      [(js ''model'', JStr (js ''claude-3-opus-20240229'')),
       (js ''max_tokens'', JNum (Finite 500)),
       (js ''messages'',
          JArr [JObj [(js ''role'', JStr (js ''user'')), (js ''content'', JStr (js ''  hi  ''))]])],
    JObj
      [(js ''contents'', JArr [JObj [(js ''parts'', JArr [JObj [(js ''text'', JStr (js ''  hi  ''))]])]])]]"
proof -
  have body: "destructure_prompt (JObj [(js ''prompt'', JStr (js ''  hi  ''))]) = Inr (JStr (js ''  hi  ''))"
    by (simp add: js_def)
  have trimmed: "trim (js ''  hi  '') = js ''hi''"
    by (simp add: trim_def js_def is_space_def)
  have nonblank: "trim (js ''  hi  '') \<noteq> []"
    by (simp add: trim_def js_def is_space_def)
  from prompt_forwarded_untrimmed [OF body nonblank, of no_keys "always (Rejected (js ''Network Error''))"]
  show ?thesis using body trimmed nonblank by simp
qed

section \<open>Fan-out and assembly\<close>

text \<open>
  C7: on a prompt that passes validation the handler invokes the three adapters, in the
  order A, B, C, each with the same prompt string, and answers HTTP 200 with the result of
  adapter A in slot \<^verbatim>\<open>modelA\<close>, of adapter B in \<^verbatim>\<open>modelB\<close> and of adapter C in
  \<^verbatim>\<open>modelC\<close>; all three results are there when it answers.
\<close>

theorem compare_fans_out_and_binds:
  assumes "destructure_prompt body = Inr (JStr s)" and "trim s \<noteq> []"
  shows "calls (snd (compare env net body)) = [(ModelA, JStr s), (ModelB, JStr s), (ModelC, JStr s)] \<and>
    (\<exists>a b c.
       fst (callModelA env net (JStr s)) = Inr a \<and>
       fst (callModelB env net (JStr s)) = Inr b \<and>
       fst (callModelC env net (JStr s)) = Inr c \<and>
       fst (compare env net body) =
         Responded 200 (JObj [(js ''modelA'', a), (js ''modelB'', b), (js ''modelC'', c)]))"
  by (simp add: compare_run [OF assms(1) invalid_valid_string [OF assms(2)]]
      callModelA_result callModelB_result callModelC_result)

text \<open>The prompt \<^verbatim>\<open>hi\<close>, the three providers answering \<^verbatim>\<open>one\<close>, \<^verbatim>\<open>two\<close>,
  \<^verbatim>\<open>three\<close>.\<close>

theorem compare_fans_out_and_binds_witness:
  "destructure_prompt (JObj [(js ''prompt'', JStr (js ''hi''))]) = Inr (JStr (js ''hi'')) \<and>
   trim (js ''hi'') \<noteq> [] \<and>
   calls (snd (compare no_keys (always (Fulfilled full_answer)) (JObj [(js ''prompt'', JStr (js ''hi''))])))
     = [(ModelA, JStr (js ''hi'')), (ModelB, JStr (js ''hi'')), (ModelC, JStr (js ''hi''))] \<and>
   fst (compare no_keys (always (Fulfilled full_answer)) (JObj [(js ''prompt'', JStr (js ''hi''))])) =
     Responded 200 (JObj
       [(js ''modelA'', JStr (js ''one'')), (js ''modelB'', JStr (js ''two'')),
        (js ''modelC'', JStr (js ''three''))])"
proof -
  have body: "destructure_prompt (JObj [(js ''prompt'', JStr (js ''hi''))]) = Inr (JStr (js ''hi''))"
    by (simp add: js_def)
  have nonblank: "trim (js ''hi'') \<noteq> []"
    by (simp add: trim_def js_def is_space_def)
  have A: "fst (callModelA no_keys (always (Fulfilled full_answer)) (JStr (js ''hi''))) = Inr (JStr (js ''one''))"
    by (simp add: callModelA_result attempt_def always_def full_answer_def pathA_def js_def)
  have B: "fst (callModelB no_keys (always (Fulfilled full_answer)) (JStr (js ''hi''))) = Inr (JStr (js ''two''))"
    by (simp add: callModelB_result attempt_def always_def full_answer_def pathB_def js_def)
  have C: "fst (callModelC no_keys (always (Fulfilled full_answer)) (JStr (js ''hi''))) = Inr (JStr (js ''three''))"
    by (simp add: callModelC_result attempt_def always_def full_answer_def pathC_def js_def)
  from compare_fans_out_and_binds [OF body nonblank, of no_keys "always (Fulfilled full_answer)"]
  show ?thesis using body nonblank by (auto simp: A B C)
qed

section \<open>Health check\<close>

text \<open>
  C8: \<^verbatim>\<open>GET /api/health\<close> answers HTTP 200 with \<^verbatim>\<open>{ "status": "Server is running" }\<close>
  for every request, whatever the credentials and whatever the providers would answer, and
  it calls nothing.
\<close>

theorem health_always_200:
  "health env net req = (Responded 200 (JObj [(js ''status'', JStr (js ''Server is running''))]), [])"
  by (simp add: health_def)

end
